theory Spec2Isabelle
  imports Complex_Main "HOL-Library.Log_Nat"
begin

section \<open>Python strings\<close>

text \<open>
  A Python \<open>str\<close> is modelled as a \<open>string\<close>: a character of the ASCII range is
  itself, and a character outside it is the bytes of its UTF-8 encoding, so that equality
  and containment of texts are Python's. The operations below are Python's on the ASCII
  range (\<open>str.isspace\<close>, \<open>str.lower\<close>, the regular expression classes \<open>\s\<close> and
  \<open>\d\<close>); a byte outside that range is neither whitespace nor a digit and is its own
  lower-case form, as the letters of Arabic are. The whitespace, the digits and the case
  mappings that Unicode has outside ASCII are not modelled.
\<close>

definition is_space :: "char \<Rightarrow> bool" where
  "is_space c =
     (c \<in> set [CHR 0x09, CHR 0x0A, CHR 0x0B, CHR 0x0C, CHR 0x0D,
                CHR 0x1C, CHR 0x1D, CHR 0x1E, CHR 0x1F, CHR 0x20])"

definition is_digit :: "char \<Rightarrow> bool" where
  "is_digit c = (c \<in> set ''0123456789'')"

definition lower_char :: "char \<Rightarrow> char" where
  "lower_char c =
     (case map_of (zip ''ABCDEFGHIJKLMNOPQRSTUVWXYZ'' ''abcdefghijklmnopqrstuvwxyz'') c of
        Some d \<Rightarrow> d
      | None \<Rightarrow> c)"

definition lower :: "string \<Rightarrow> string" where
  "lower s = map lower_char s"

text \<open>\<open>s.strip()\<close>: whitespace removed at both ends.\<close>

definition strip :: "string \<Rightarrow> string" where
  "strip s = rev (dropWhile is_space (rev (dropWhile is_space s)))"

text \<open>\<open>a in b\<close> on two strings: \<open>a\<close> occurs in \<open>b\<close> as a contiguous run.\<close>

fun starts_with :: "string \<Rightarrow> string \<Rightarrow> bool" where
  "starts_with [] s = True"
| "starts_with (p # ps) [] = False"
| "starts_with (p # ps) (c # cs) = (p = c \<and> starts_with ps cs)"

fun str_in :: "string \<Rightarrow> string \<Rightarrow> bool" where
  "str_in a [] = (a = [])"
| "str_in a (c # cs) = (starts_with a (c # cs) \<or> str_in a cs)"

text \<open>\<open>s.replace(" ", "_")\<close>, the only use of \<open>str.replace\<close> in the source.\<close>

definition replace_space :: "string \<Rightarrow> string" where
  "replace_space s = map (\<lambda>c. if c = CHR '' '' then CHR ''_'' else c) s"

text \<open>Decimal rendering of an integer, as \<open>str(n)\<close> and an f-string do.\<close>

definition digit_char :: "nat \<Rightarrow> char" where
  "digit_char d = ''0123456789'' ! d"

function str_nat :: "nat \<Rightarrow> string" where
  "str_nat n = (if n < 10 then [digit_char n] else str_nat (n div 10) @ [digit_char (n mod 10)])"
  by pat_completeness auto
termination
  by (relation "measure id") auto

declare str_nat.simps [simp del]

definition str_int :: "int \<Rightarrow> string" where
  "str_int i = (if i < 0 then CHR ''-'' # str_nat (nat (- i)) else str_nat (nat i))"

definition digit_val :: "char \<Rightarrow> nat" where
  "digit_val c =
     (case map_of (zip ''0123456789'' [0, 1, 2, 3, 4, 5, 6, 7, 8, 9]) c of
        Some d \<Rightarrow> d
      | None \<Rightarrow> 0)"

text \<open>\<open>int(ds)\<close> on a run of decimal digits.\<close>

definition nat_of_digits :: "string \<Rightarrow> nat" where
  "nat_of_digits ds = foldl (\<lambda>a c. 10 * a + digit_val c) 0 ds"

section \<open>Python floats\<close>

text \<open>
  A \<open>float\<close> is an IEEE binary64 value: a finite one is the rational it denotes (so
  \<open>-0.0\<close> and \<open>0.0\<close> are one value, as they are for \<open>==\<close>), and \<open>round_binary64\<close> is
  the conversion Python performs from an exact number: to the nearest value with a
  53-bit significand, ties to even, subnormal below \<open>2\<^sup>-\<^sup>1\<^sup>0\<^sup>2\<^sup>2\<close>, infinite from
  \<open>2\<^sup>1\<^sup>0\<^sup>2\<^sup>4\<close> on.
\<close>

datatype pyfloat = Fin rat | PosInf | NegInf | NaN

text \<open>The integer nearest to \<open>a / b\<close> for \<open>b > 0\<close>, a tie going to the even one.\<close>

definition round_half_even :: "int \<Rightarrow> int \<Rightarrow> int" where
  "round_half_even a b =
     (let q = a div b; r = a mod b
      in if 2 * r < b then q else if b < 2 * r then q + 1 else if even q then q else q + 1)"

text \<open>\<open>\<lfloor>log\<^sub>2 (p / d)\<rfloor>\<close> for positive \<open>p\<close> and \<open>d\<close>, from the two bit lengths.\<close>

definition floor_log2 :: "int \<Rightarrow> int \<Rightarrow> int" where
  "floor_log2 p d =
     (let e = bitlen p - bitlen d
      in if (if 0 \<le> e then d * 2 ^ nat e \<le> p else d \<le> p * 2 ^ nat (- e)) then e else e - 1)"

text \<open>
  The binary64 value nearest to \<open>p / d\<close> for positive \<open>p\<close> and \<open>d\<close>; \<open>None\<close> when the
  nearest value is beyond the largest finite one. The quotient is scaled by \<open>2\<^sup>k\<close> so that
  its integer part has 53 bits (fewer in the subnormal range), and rounded there.
\<close>

definition round_pos :: "int \<Rightarrow> int \<Rightarrow> rat option" where
  "round_pos p d =
     (let e = floor_log2 p d
      in if 1023 < e then None
         else
           let k = 52 - max e (- 1022);
               n = (if 0 \<le> k then round_half_even (p * 2 ^ nat k) d
                    else round_half_even p (d * 2 ^ nat (- k)))
           in if e = 1023 \<and> n = 2 ^ 53 then None
              else Some (if 0 \<le> k then of_int n / 2 ^ nat k else of_int n * 2 ^ nat (- k)))"

definition round_binary64 :: "int \<Rightarrow> int \<Rightarrow> pyfloat" where
  "round_binary64 p d =
     (if p = 0 then Fin 0
      else if 0 < p then (case round_pos p d of None \<Rightarrow> PosInf | Some r \<Rightarrow> Fin r)
      else (case round_pos (- p) d of None \<Rightarrow> NegInf | Some r \<Rightarrow> Fin (- r)))"


section \<open>Python values and exceptions\<close>

text \<open>
  The values that reach the pipeline are those of a decoded JSON document. A \<open>dict\<close> is
  an association list in insertion order, looked up with \<open>map_of\<close>; its keys are strings.
\<close>

datatype pyval =
    PNone
  | PBool bool
  | PInt int
  | PFloat pyfloat
  | PStr string
  | PList "pyval list"
  | PDict "(string \<times> pyval) list"

datatype py_exception =
    AttributeError string
  | TypeError string
  | ValueError string
  | OverflowError string

text \<open>\<open>str(e)\<close> of an exception: its message.\<close>

fun exc_str :: "py_exception \<Rightarrow> string" where
  "exc_str (AttributeError m) = m"
| "exc_str (TypeError m) = m"
| "exc_str (ValueError m) = m"
| "exc_str (OverflowError m) = m"

fun type_name :: "pyval \<Rightarrow> string" where
  "type_name PNone = ''NoneType''"
| "type_name (PBool b) = ''bool''"
| "type_name (PInt i) = ''int''"
| "type_name (PFloat f) = ''float''"
| "type_name (PStr s) = ''str''"
| "type_name (PList xs) = ''list''"
| "type_name (PDict d) = ''dict''"

definition quoted :: "string \<Rightarrow> string" where
  "quoted s = [CHR 0x27] @ s @ [CHR 0x27]"

definition no_attribute :: "pyval \<Rightarrow> string \<Rightarrow> py_exception" where
  "no_attribute v a =
     AttributeError (quoted (type_name v) @ '' object has no attribute '' @ quoted a)"

text \<open>\<open>d.get(k, default)\<close> on a dict.\<close>

definition dict_get :: "(string \<times> pyval) list \<Rightarrow> string \<Rightarrow> pyval \<Rightarrow> pyval" where
  "dict_get d k dflt = (case map_of d k of Some v \<Rightarrow> v | None \<Rightarrow> dflt)"

subsection \<open>\<open>float(x)\<close> and \<open>int(f)\<close>\<close>

text \<open>
  \<open>float\<close> of a string, as CPython reads it: the text is stripped; an underscore may
  stand only between two digits and is dropped; then comes an optional sign followed by
  \<open>inf\<close>, \<open>infinity\<close> or \<open>nan\<close> in any case, or by a decimal numeral with an optional
  fraction and exponent, which must use up the text. The numeral's value is rounded to
  binary64. The message of the \<open>ValueError\<close> is given without the repr of the argument.
\<close>

fun underscores_ok :: "char option \<Rightarrow> string \<Rightarrow> bool" where
  "underscores_ok prev [] = (prev \<noteq> Some CHR ''_'')"
| "underscores_ok prev (c # cs) =
     ((if c = CHR ''_'' then (case prev of Some p \<Rightarrow> is_digit p | None \<Rightarrow> False)
       else (if prev = Some CHR ''_'' then is_digit c else True))
      \<and> underscores_ok (Some c) cs)"

definition parse_exponent :: "string \<Rightarrow> int option" where
  "parse_exponent r =
     (case r of
        [] \<Rightarrow> Some 0
      | c # r1 \<Rightarrow>
          if c = CHR ''e'' \<or> c = CHR ''E'' then
            (let (neg, ds) =
                   (case r1 of
                      [] \<Rightarrow> (False, [])
                    | s # r2 \<Rightarrow>
                        if s = CHR ''-'' then (True, r2)
                        else if s = CHR ''+'' then (False, r2) else (False, r1))
             in if ds \<noteq> [] \<and> list_all is_digit ds
                then Some (if neg then - int (nat_of_digits ds) else int (nat_of_digits ds))
                else None)
          else None)"

text \<open>A decimal numeral: its digits as one integer, and the power of ten that scales it.\<close>

definition parse_decimal :: "string \<Rightarrow> (int \<times> int) option" where
  "parse_decimal t =
     (let ds1 = takeWhile is_digit t; r1 = dropWhile is_digit t;
          (ds2, r2) =
            (case r1 of
               [] \<Rightarrow> ([], [])
             | c # r \<Rightarrow>
                 if c = CHR ''.'' then (takeWhile is_digit r, dropWhile is_digit r)
                 else ([], r1))
      in if ds1 = [] \<and> ds2 = [] then None
         else
           (case parse_exponent r2 of
              None \<Rightarrow> None
            | Some e \<Rightarrow> Some (int (nat_of_digits (ds1 @ ds2)), e - int (length ds2))))"

definition float_of_str :: "string \<Rightarrow> py_exception + pyfloat" where
  "float_of_str s =
     (let t = strip s
      in if \<not> underscores_ok None t then Inl (ValueError ''could not convert string to float'')
         else
           let u = filter (\<lambda>c. c \<noteq> CHR ''_'') t;
               (neg, body) =
                 (case u of
                    [] \<Rightarrow> (False, [])
                  | c # r \<Rightarrow>
                      if c = CHR ''-'' then (True, r)
                      else if c = CHR ''+'' then (False, r) else (False, u))
           in if lower body = ''inf'' \<or> lower body = ''infinity''
              then Inr (if neg then NegInf else PosInf)
              else if lower body = ''nan'' then Inr NaN
              else
                (case parse_decimal body of
                   None \<Rightarrow> Inl (ValueError ''could not convert string to float'')
                 | Some (m, e) \<Rightarrow>
                     let sm = (if neg then - m else m)
                     in Inr (if 0 \<le> e then round_binary64 (sm * 10 ^ nat e) 1
                             else round_binary64 sm (10 ^ nat (- e)))))"

fun py_float :: "pyval \<Rightarrow> py_exception + pyfloat" where
  "py_float (PStr s) = float_of_str s"
| "py_float (PFloat f) = Inr f"
| "py_float (PBool b) = Inr (Fin (if b then 1 else 0))"
| "py_float (PInt i) =
     (case round_binary64 i 1 of
        Fin q \<Rightarrow> Inr (Fin q)
      | _ \<Rightarrow> Inl (OverflowError ''int too large to convert to float''))"
| "py_float v =
     Inl (TypeError (''float() argument must be a string or a real number, not ''
                     @ quoted (type_name v)))"

text \<open>\<open>int(f)\<close> on a float truncates towards zero.\<close>

definition trunc :: "rat \<Rightarrow> int" where
  "trunc q = (if 0 \<le> q then \<lfloor>q\<rfloor> else - \<lfloor>- q\<rfloor>)"

fun int_of_float :: "pyfloat \<Rightarrow> py_exception + int" where
  "int_of_float (Fin q) = Inr (trunc q)"
| "int_of_float NaN = Inl (ValueError ''cannot convert float NaN to integer'')"
| "int_of_float f = Inl (OverflowError ''cannot convert float infinity to integer'')"

section \<open>Configuration and library calls\<close>

text \<open>
  \<open>load_supported_fields()\<close> and \<open>load_value_mappings()\<close> read two JSON files that are
  data of the deployment; the functions below take their decoded content as arguments.
  Each table is an association list in the file's order, the order in which Python
  iterates over the dict. The entry \<open>"fields"\<close> of the configuration is the field
  \<open>category_fields\<close> of the record.
\<close>

record config =
  category_fields :: "(string \<times> string list) list"
  operators :: "string list"
  field_types :: "(string \<times> string) list"
  valid_operators_per_type :: "(string \<times> string list) list"

record mappings =
  gender_mappings :: "(string \<times> string) list"
  country_mappings :: "(string \<times> string) list"
  city_mappings :: "(string \<times> string) list"
  boolean_mappings :: "(string \<times> bool) list"
  month_names :: "(string \<times> string) list"

text \<open>
  What the source calls in libraries and the clock, by what it uses of the result:
  \<^item> \<open>py_repr v\<close> is \<open>repr(v)\<close>, used for the text of a float, a list or a dict inside
    an f-string;
  \<^item> \<open>days_ago n\<close> is \<open>(datetime.now() - timedelta(days=n)).strftime("%Y-%m-%d")\<close>, or
    the exception the date arithmetic raises when it leaves the range of \<open>datetime\<close>;
  \<^item> \<open>fuzzy_date s\<close> is \<open>date_parser.parse(s, fuzzy=True).strftime("%Y-%m-%d")\<close>, or
    \<open>None\<close> when the parser raises.
\<close>

record externals =
  py_repr :: "pyval \<Rightarrow> string"
  days_ago :: "nat \<Rightarrow> py_exception + string"
  fuzzy_date :: "string \<Rightarrow> string option"

text \<open>\<open>str(v)\<close>, as an f-string formats a value.\<close>

definition py_str :: "externals \<Rightarrow> pyval \<Rightarrow> string" where
  "py_str X v =
     (case v of
        PStr s \<Rightarrow> s
      | PNone \<Rightarrow> ''None''
      | PBool b \<Rightarrow> (if b then ''True'' else ''False'')
      | PInt i \<Rightarrow> str_int i
      | _ \<Rightarrow> py_repr X v)"

section \<open>Canonicalizer\<close>

definition field_aliases :: "(string \<times> string) list" where
  "field_aliases =
     [(''sex'', ''gender''),
      (''join_date'', ''joining_date''),
      (''signup_date'', ''joining_date''),
      (''registration_date'', ''joining_date''),
      (''orders'', ''total_orders''),
      (''order_count'', ''total_orders''),
      (''num_orders'', ''total_orders''),
      (''sales'', ''total_sales''),
      (''revenue'', ''total_sales''),
      (''rating'', ''store_rating''),
      (''last_order'', ''latest_purchase''),
      (''last_purchase'', ''latest_purchase'')]"

text \<open>
  \<open>normalize_field_name(field)\<close>. The caller passes whatever the candidate holds under
  \<open>"field"\<close>; a value that is not a string has no \<open>lower\<close>.
\<close>

definition normalize_field_name :: "pyval \<Rightarrow> py_exception + string" where
  "normalize_field_name field =
     (case field of
        PStr s \<Rightarrow>
          (let f = replace_space (strip (lower s))
           in Inr (case map_of field_aliases f of Some c \<Rightarrow> c | None \<Rightarrow> f))
      | _ \<Rightarrow> Inl (no_attribute field ''lower''))"

definition operator_aliases :: "(string \<times> string) list" where
  "operator_aliases =
     [(''equals'', ''=''),
      (''equal'', ''=''),
      (''is'', ''=''),
      (''not equals'', ''!=''),
      (''not equal'', ''!=''),
      (''is not'', ''!=''),
      (''greater than'', ''>''),
      (''more than'', ''>''),
      (''gt'', ''>''),
      (''less than'', ''<''),
      (''lt'', ''<''),
      (''greater than or equal'', ''>=''),
      (''at least'', ''>=''),
      (''gte'', ''>=''),
      (''less than or equal'', ''<=''),
      (''at most'', ''<=''),
      (''lte'', ''<=''),
      (''in range'', ''between''),
      (''range'', ''between'')]"

text \<open>\<open>normalize_operator(operator)\<close>: the operator is stripped, then looked up in lower case.\<close>

definition normalize_operator :: "pyval \<Rightarrow> py_exception + string" where
  "normalize_operator operator =
     (case operator of
        PStr s \<Rightarrow>
          (let op = strip s
           in Inr (case map_of operator_aliases (lower op) of Some c \<Rightarrow> c | None \<Rightarrow> op))
      | _ \<Rightarrow> Inl (no_attribute operator ''strip''))"

section \<open>Value normalizer\<close>

subsection \<open>Date resolution\<close>

text \<open>
  \<open>re.search(r"(\d+)\s*days?", s, re.IGNORECASE)\<close>: group 1 of the leftmost match. A match
  starts at a digit; the run of digits and the whitespace after it are taken whole
  (giving one back never lets \<open>day\<close> match), and \<open>day\<close> follows in any case.
\<close>

fun days_match :: "string \<Rightarrow> string option" where
  "days_match [] = None"
| "days_match (c # cs) =
     (let ds = takeWhile is_digit (c # cs);
          r = dropWhile is_space (dropWhile is_digit (c # cs))
      in if ds \<noteq> [] \<and> starts_with ''day'' (lower r) then Some ds else days_match cs)"

text \<open>
  \<open>re.compile(re.escape(name), re.IGNORECASE).sub(num, s)\<close>: every occurrence of \<open>name\<close>,
  in any case, from left to right and without overlap, becomes \<open>num\<close>; the empty pattern
  matches before every character and at the end. The replacement is taken literally,
  which is how \<open>sub\<close> treats a text without a backslash, as a month number is. The
  counter of \<open>sub_ci\<close> is the number of characters of the current match still to skip.
\<close>

fun sub_ci :: "string \<Rightarrow> string \<Rightarrow> nat \<Rightarrow> string \<Rightarrow> string" where
  "sub_ci pat repl skip [] = []"
| "sub_ci pat repl skip (c # cs) =
     (if 0 < skip then sub_ci pat repl (skip - 1) cs
      else if starts_with (lower pat) (lower (c # cs))
           then repl @ sub_ci pat repl (length pat - 1) cs
           else c # sub_ci pat repl 0 cs)"

definition re_sub_ci :: "string \<Rightarrow> string \<Rightarrow> string \<Rightarrow> string" where
  "re_sub_ci pat repl s =
     (if pat = [] then repl @ concat (map (\<lambda>c. c # repl) s) else sub_ci pat repl 0 s)"

text \<open>The loop over \<open>mappings["month_names"].items()\<close>.\<close>

definition replace_months :: "mappings \<Rightarrow> string \<Rightarrow> string" where
  "replace_months M date_str =
     foldl (\<lambda>s (month_name, month_num). re_sub_ci month_name month_num s) date_str (month_names M)"

text \<open>The relative form: \<open>last\<close> occurs in the text and the pattern for the days matches.\<close>

definition relative_days :: "string \<Rightarrow> string option" where
  "relative_days date_str = (if str_in ''last'' (lower date_str) then days_match date_str else None)"

definition parse_date :: "externals \<Rightarrow> mappings \<Rightarrow> string \<Rightarrow> py_exception + string" where
  "parse_date X M date_str0 =
     (let date_str = strip date_str0
      in case relative_days date_str of
           Some ds \<Rightarrow> days_ago X (nat_of_digits ds)
         | None \<Rightarrow>
             let date_str = replace_months M date_str
             in Inr (case fuzzy_date X date_str of Some d \<Rightarrow> d | None \<Rightarrow> date_str))"

subsection \<open>\<open>normalize_value\<close>\<close>

text \<open>The two scans over a mapping table: the first entry that matches gives the value.\<close>

fun scan_country :: "(string \<times> string) list \<Rightarrow> string \<Rightarrow> string option" where
  "scan_country [] v = None"
| "scan_country ((key, mapped_value) # rest) v =
     (if str_in (lower key) (lower v) then Some mapped_value else scan_country rest v)"

fun scan_city :: "(string \<times> string) list \<Rightarrow> string \<Rightarrow> string option" where
  "scan_city [] v = None"
| "scan_city ((key, mapped_value) # rest) v =
     (if str_in (lower key) (lower v) \<or> str_in (lower v) (lower key) then Some mapped_value
      else scan_city rest v)"

text \<open>
  The block under \<open>isinstance(value, str)\<close>, on the stripped text: \<open>Some\<close> is what one of
  its \<open>return\<close> statements returns, \<open>None\<close> is falling out of the block.
\<close>

definition normalize_text ::
  "externals \<Rightarrow> mappings \<Rightarrow> string \<Rightarrow> string \<Rightarrow> string \<Rightarrow> (py_exception + pyval) option" where
  "normalize_text X M field v field_type =
     (case (if field = ''gender'' then map_of (gender_mappings M) (lower v) else None) of
        Some g \<Rightarrow> Some (Inr (PStr g))
      | None \<Rightarrow>
     (case (if field = ''country'' then scan_country (country_mappings M) v else None) of
        Some c \<Rightarrow> Some (Inr (PStr c))
      | None \<Rightarrow>
     (case (if field = ''city'' then scan_city (city_mappings M) v else None) of
        Some c \<Rightarrow> Some (Inr (PStr c))
      | None \<Rightarrow>
     (case (if field_type = ''boolean'' then map_of (boolean_mappings M) (lower v) else None) of
        Some b \<Rightarrow> Some (Inr (PBool b))
      | None \<Rightarrow>
          if field_type = ''date''
          then Some (case parse_date X M v of Inl e \<Rightarrow> Inl e | Inr d \<Rightarrow> Inr (PStr d))
          else None))))"

text \<open>
  \<open>try: return ... except (ValueError, TypeError): pass\<close>: \<open>Some\<close> is the value returned,
  \<open>None\<close> is going on after the handler; any other exception leaves the function.
\<close>

fun is_value_or_type_error :: "py_exception \<Rightarrow> bool" where
  "is_value_or_type_error (ValueError m) = True"
| "is_value_or_type_error (TypeError m) = True"
| "is_value_or_type_error e = False"

definition try_convert :: "py_exception + 'a \<Rightarrow> py_exception + 'a option" where
  "try_convert r =
     (case r of
        Inr x \<Rightarrow> Inr (Some x)
      | Inl e \<Rightarrow> if is_value_or_type_error e then Inr None else Inl e)"

text \<open>\<open>int(float(value))\<close>.\<close>

definition int_float :: "pyval \<Rightarrow> py_exception + int" where
  "int_float v = (case py_float v of Inl e \<Rightarrow> Inl e | Inr f \<Rightarrow> int_of_float f)"

fun is_bool :: "pyval \<Rightarrow> bool" where
  "is_bool (PBool b) = True"
| "is_bool v = False"

text \<open>The part of \<open>normalize_value\<close> after the string block.\<close>

definition coerce_numeric :: "pyval \<Rightarrow> string \<Rightarrow> py_exception + pyval" where
  "coerce_numeric v field_type =
     (case (if field_type = ''integer'' \<and> \<not> is_bool v then try_convert (int_float v)
            else Inr None) of
        Inl e \<Rightarrow> Inl e
      | Inr (Some i) \<Rightarrow> Inr (PInt i)
      | Inr None \<Rightarrow>
          (case (if field_type = ''float'' then try_convert (py_float v) else Inr None) of
             Inl e \<Rightarrow> Inl e
           | Inr (Some f) \<Rightarrow> Inr (PFloat f)
           | Inr None \<Rightarrow> Inr v))"

definition normalize_value ::
  "externals \<Rightarrow> mappings \<Rightarrow> string \<Rightarrow> pyval \<Rightarrow> string \<Rightarrow> py_exception + pyval" where
  "normalize_value X M field v field_type =
     (case v of
        PStr s \<Rightarrow>
          (case normalize_text X M field (strip s) field_type of
             Some r \<Rightarrow> r
           | None \<Rightarrow> coerce_numeric (PStr (strip s)) field_type)
      | _ \<Rightarrow> coerce_numeric v field_type)"


section \<open>Validator\<close>

text \<open>\<open>x in xs\<close> and \<open>x == s\<close> for a list of strings and a string: only an equal string is.\<close>

definition in_strs :: "pyval \<Rightarrow> string list \<Rightarrow> bool" where
  "in_strs v xs = (case v of PStr s \<Rightarrow> s \<in> set xs | _ \<Rightarrow> False)"

definition all_fields :: "config \<Rightarrow> string list" where
  "all_fields C = concat (map snd (category_fields C))"

text \<open>\<open>value is None or (isinstance(value, str) and not value.strip())\<close>.\<close>

definition missing_value :: "pyval \<Rightarrow> bool" where
  "missing_value v = (case v of PNone \<Rightarrow> True | PStr s \<Rightarrow> strip s = [] | _ \<Rightarrow> False)"

text \<open>\<open>not isinstance(value, list) or len(value) != 2\<close>.\<close>

definition not_pair :: "pyval \<Rightarrow> bool" where
  "not_pair v = (case v of PList xs \<Rightarrow> length xs \<noteq> 2 | _ \<Rightarrow> True)"

definition between_error :: "externals \<Rightarrow> pyval \<Rightarrow> string" where
  "between_error X field =
     ''Operator '' @ quoted ''between'' @ '' requires a list of two values for field: ''
       @ py_str X field"

definition validate_filter :: "externals \<Rightarrow> (string \<times> pyval) list \<Rightarrow> config \<Rightarrow> string list" where
  "validate_filter X filter_dict C =
     (let field = dict_get filter_dict ''field'' PNone;
          operator = dict_get filter_dict ''operator'' PNone;
          v = dict_get filter_dict ''value'' PNone
      in if \<not> in_strs field (all_fields C) then [''Unsupported field: '' @ py_str X field]
         else
           (if \<not> in_strs operator (operators C)
            then [''Unsupported operator: '' @ py_str X operator] else [])
           @ (case (case field of PStr f \<Rightarrow> map_of (field_types C) f | _ \<Rightarrow> None) of
                None \<Rightarrow> []
              | Some field_type \<Rightarrow>
                  if field_type \<noteq> [] \<and>
                     \<not> in_strs operator
                         (case map_of (valid_operators_per_type C) field_type of
                            Some ops \<Rightarrow> ops
                          | None \<Rightarrow> [])
                  then [''Operator '' @ quoted (py_str X operator) @ '' is not valid for field ''
                          @ quoted (py_str X field) @ '' of type '' @ quoted field_type]
                  else [])
           @ (if missing_value v then [''Missing value for field: '' @ py_str X field] else [])
           @ (if operator = PStr ''between'' \<and> not_pair v then [between_error X field] else []))"

section \<open>Pipeline orchestrator\<close>

text \<open>The list comprehension over a list value: the first exception ends it.\<close>

fun normalize_each ::
  "externals \<Rightarrow> mappings \<Rightarrow> string \<Rightarrow> pyval list \<Rightarrow> string \<Rightarrow> py_exception + pyval list" where
  "normalize_each X M field [] field_type = Inr []"
| "normalize_each X M field (v # vs) field_type =
     (case normalize_value X M field v field_type of
        Inl e \<Rightarrow> Inl e
      | Inr w \<Rightarrow>
          (case normalize_each X M field vs field_type of
             Inl e \<Rightarrow> Inl e
           | Inr ws \<Rightarrow> Inr (w # ws)))"

text \<open>
  The body of the \<open>try\<close> for one candidate, up to the call of \<open>validate_filter\<close>: the
  normalized filter and its validation errors, or the exception raised on the way.
\<close>

definition process_candidate ::
  "externals \<Rightarrow> mappings \<Rightarrow> config \<Rightarrow> pyval \<Rightarrow> py_exception + (string \<times> pyval) list \<times> string list" where
  "process_candidate X M C filter_dict =
     (case filter_dict of
        PDict d \<Rightarrow>
          (case normalize_field_name (dict_get d ''field'' (PStr [])) of
             Inl e \<Rightarrow> Inl e
           | Inr normalized_field \<Rightarrow>
          (case normalize_operator (dict_get d ''operator'' (PStr [])) of
             Inl e \<Rightarrow> Inl e
           | Inr normalized_operator \<Rightarrow>
          (let field_type =
                 (case map_of (field_types C) normalized_field of Some t \<Rightarrow> t | None \<Rightarrow> ''string'');
               v = dict_get d ''value'' PNone
           in case (case v of
                      PList vs \<Rightarrow>
                        (case normalize_each X M normalized_field vs field_type of
                           Inl e \<Rightarrow> Inl e
                         | Inr ws \<Rightarrow> Inr (PList ws))
                    | _ \<Rightarrow> normalize_value X M normalized_field v field_type) of
                Inl e \<Rightarrow> Inl e
              | Inr normalized_value \<Rightarrow>
                  (let normalized_filter =
                         [(''field'', PStr normalized_field),
                          (''operator'', PStr normalized_operator),
                          (''value'', normalized_value)]
                   in Inr (normalized_filter, validate_filter X normalized_filter C)))))
      | _ \<Rightarrow> Inl (no_attribute filter_dict ''get''))"

text \<open>
  The \<open>for\<close> loop of \<open>validation_node\<close> from index \<open>i\<close> on, with its two accumulators.
  The \<open>except Exception\<close> clause turns an exception of the body into one error message.
\<close>

fun validation_loop ::
  "externals \<Rightarrow> mappings \<Rightarrow> config \<Rightarrow> nat \<Rightarrow> pyval list \<Rightarrow> pyval list \<times> string list
     \<Rightarrow> pyval list \<times> string list" where
  "validation_loop X M C i [] acc = acc"
| "validation_loop X M C i (filter_dict # rest) (validated_filters, validation_errors) =
     validation_loop X M C (i + 1) rest
       (case process_candidate X M C filter_dict of
          Inr (normalized_filter, filter_errors) \<Rightarrow>
            if filter_errors \<noteq> []
            then (validated_filters,
                  validation_errors
                    @ map (\<lambda>error. ''Filter '' @ str_nat (i + 1) @ '': '' @ error) filter_errors)
            else (validated_filters @ [PDict normalized_filter], validation_errors)
        | Inl e \<Rightarrow>
            (validated_filters,
             validation_errors
               @ [''Filter '' @ str_nat (i + 1) @ '': Validation exception - '' @ exc_str e]))"

text \<open>
  What \<open>len(raw_filters)\<close> and \<open>enumerate(raw_filters)\<close> make of the entry of the state: the
  items of a list, the characters of a string, the keys of a dict; anything else has no
  length.
\<close>

definition candidates_of :: "pyval \<Rightarrow> py_exception + pyval list" where
  "candidates_of raw_filters =
     (case raw_filters of
        PList xs \<Rightarrow> Inr xs
      | PStr s \<Rightarrow> Inr (map (\<lambda>c. PStr [c]) s)
      | PDict d \<Rightarrow> Inr (map (\<lambda>(k, v). PStr k) d)
      | _ \<Rightarrow> Inl (TypeError (''object of type '' @ quoted (type_name raw_filters) @ '' has no len()'')))"

text \<open>\<open>errors + validation_errors\<close>, the right operand being a list of strings.\<close>

definition add_errors :: "pyval \<Rightarrow> string list \<Rightarrow> py_exception + pyval" where
  "add_errors errors validation_errors =
     (case errors of
        PList es \<Rightarrow> Inr (PList (es @ map PStr validation_errors))
      | PStr s \<Rightarrow> Inl (TypeError ''can only concatenate str (not \"list\") to str'')
      | _ \<Rightarrow>
          Inl (TypeError (''unsupported operand type(s) for +: '' @ quoted (type_name errors)
                          @ '' and '' @ quoted ''list'')))"

text \<open>The state is a dict with string keys; the result is \<open>{**state, ...}\<close>.\<close>

definition validation_node ::
  "externals \<Rightarrow> mappings \<Rightarrow> config \<Rightarrow> (string \<rightharpoonup> pyval) \<Rightarrow> py_exception + (string \<rightharpoonup> pyval)" where
  "validation_node X M C state =
     (let raw_filters = (case state ''raw_filters'' of Some v \<Rightarrow> v | None \<Rightarrow> PList []);
          errors = (case state ''errors'' of Some v \<Rightarrow> v | None \<Rightarrow> PList [])
      in case candidates_of raw_filters of
           Inl e \<Rightarrow> Inl e
         | Inr cs \<Rightarrow>
             (let (validated_filters, validation_errors) = validation_loop X M C 0 cs ([], [])
              in case add_errors errors validation_errors of
                   Inl e \<Rightarrow> Inl e
                 | Inr all_errors \<Rightarrow>
                     Inr (state(''validated_filters'' \<mapsto> PList validated_filters,
                                ''errors'' \<mapsto> all_errors))))"

section \<open>Data for the examples\<close>

text \<open>
  The configuration of the test fixture \<open>mock_config\<close>, with the operators each type
  admits (\<open>test_invalid_operator_for_field_type\<close>: a string field does not take \<open>>\<close>).
\<close>

definition all_operators :: "string list" where
  "all_operators = [''='', ''!='', ''<'', ''>'', ''<='', ''>='', ''between'']"

definition example_config :: config where
  "example_config =
     \<lparr>category_fields =
        [(''customer_attributes'', [''gender'', ''joining_date'']),
         (''sales_engagement'', [''total_orders'', ''store_rating'']),
         (''geographic_attributes'', [''city'', ''country''])],
      operators = all_operators,
      field_types =
        [(''gender'', ''string''), (''joining_date'', ''date''), (''total_orders'', ''integer''),
         (''store_rating'', ''float''), (''city'', ''string'')],
      valid_operators_per_type =
        [(''string'', [''='', ''!='']), (''integer'', all_operators), (''float'', all_operators),
         (''date'', all_operators), (''boolean'', [''='', ''!=''])]\<rparr>"

text \<open>
  Mapping tables with the entries the tests name; an Arabic key is the UTF-8 text of the
  word (the words for male, for Riyadh and for January).
\<close>

definition example_mappings :: mappings where
  "example_mappings =
     \<lparr>gender_mappings =
        [(''male'', ''Male''), (''female'', ''Female''), (''m'', ''Male''), (''f'', ''Female''),
         ([CHR 0xD8, CHR 0xB0, CHR 0xD9, CHR 0x83, CHR 0xD8, CHR 0xB1], ''Male'')],
      country_mappings = [(''saudi arabia'', ''Saudi Arabia''), (''egypt'', ''Egypt'')],
      city_mappings =
        [(''riyadh'', ''Riyadh''),
         ([CHR 0xD8, CHR 0xA7, CHR 0xD9, CHR 0x84, CHR 0xD8, CHR 0xB1, CHR 0xD9, CHR 0x8A,
           CHR 0xD8, CHR 0xA7, CHR 0xD8, CHR 0xB6], ''Riyadh''),
         (''jeddah'', ''Jeddah'')],
      boolean_mappings = [(''true'', True), (''yes'', True), (''false'', False), (''no'', False)],
      month_names =
        [(''january'', ''01''), (''march'', ''03''),
         ([CHR 0xD9, CHR 0x8A, CHR 0xD9, CHR 0x86, CHR 0xD8, CHR 0xA7, CHR 0xD9, CHR 0x8A,
           CHR 0xD8, CHR 0xB1], ''01'')]\<rparr>"

text \<open>
  Stand-ins for the library calls, enough to evaluate the examples: a date parser that
  accepts exactly a text of the form \<open>dddd-dd-dd\<close> and returns it, a clock that
  answers every offset with one day, and a \<open>repr\<close> that prints the type.
\<close>

definition iso_shaped :: "string \<Rightarrow> bool" where
  "iso_shaped s =
     (length s = 10 \<and> list_all is_digit (take 4 s) \<and> s ! 4 = CHR ''-''
      \<and> list_all is_digit (take 2 (drop 5 s)) \<and> s ! 7 = CHR ''-''
      \<and> list_all is_digit (drop 8 s))"

definition example_externals :: externals where
  "example_externals =
     \<lparr>py_repr = (\<lambda>v. ''<'' @ type_name v @ ''>''),
      days_ago = (\<lambda>n. Inr ''2024-01-01''),
      fuzzy_date = (\<lambda>s. if iso_shaped s then Some s else None)\<rparr>"

text \<open>
  Three candidates for the orchestrator (an aliased range filter, a candidate that is not a
  dict, a filter on a field outside the catalog) and a state that holds them, with one
  error from the parsing step.
\<close>

definition example_candidates :: "pyval list" where
  "example_candidates =
     [PDict [(''field'', PStr ''rating''), (''operator'', PStr ''in range''),
             (''value'', PList [PInt 3, PInt 5])],
      PInt 3,
      PDict [(''field'', PStr ''email_open_rate''), (''operator'', PStr ''=''),
             (''value'', PStr ''10%'')]]"

definition example_state :: "string \<rightharpoonup> pyval" where
  "example_state =
     [''prompt'' \<mapsto> PStr ''customers rated 3 to 5'',
      ''raw_filters'' \<mapsto> PList example_candidates,
      ''errors'' \<mapsto> PList [PStr ''Parsing error: timeout'']]"

section \<open>Properties\<close>

subsection \<open>Rules that evaluate the definitions on concrete text\<close>


lemmas ex_ev = example_config_def example_mappings_def example_externals_def all_operators_def

lemmas vf_ev = validate_filter_def dict_get_def in_strs_def all_fields_def py_str_def
  missing_value_def not_pair_def between_error_def quoted_def

subsection \<open>Validator\<close>

text \<open>
  Claim C4. A filter whose field is not among the fields of the catalog gets exactly one
  error message, \<open>Unsupported field: <field>\<close>, whatever its operator and value are:
  \<open>validate_filter\<close> returns before any other check.
\<close>

theorem unsupported_field_single_error:
  assumes "\<not> in_strs (dict_get filter_dict ''field'' PNone) (all_fields C)"
  shows "validate_filter X filter_dict C
           = [''Unsupported field: '' @ py_str X (dict_get filter_dict ''field'' PNone)]"
  using assms by (simp add: validate_filter_def)

theorem unsupported_field_single_error_witness:
  "\<not> in_strs (dict_get [(''field'', PStr ''email_open_rate''), (''operator'', PStr ''=''),
                          (''value'', PStr ''10%'')] ''field'' PNone) (all_fields example_config)
   \<and> validate_filter example_externals
         [(''field'', PStr ''email_open_rate''), (''operator'', PStr ''=''), (''value'', PStr ''10%'')]
         example_config
       = [''Unsupported field: email_open_rate'']"
  using unsupported_field_single_error
          [of "[(''field'', PStr ''email_open_rate''), (''operator'', PStr ''=''),
                (''value'', PStr ''10%'')]" example_config example_externals]
  by (simp add: ex_ev dict_get_def in_strs_def all_fields_def py_str_def)

text \<open>
  Claim C5, as amended. For a filter whose operator is \<open>between\<close> and whose field is in
  the catalog, the result of the validator contains the structural error (\<open>Operator
  'between' requires a list of two values for field: <field>\<close>) exactly when the value is
  not a list of two elements. The condition on the field is needed: the validator
  returns at an unsupported field, before it looks at the operator.
\<close>

theorem between_structural_error:
  assumes "in_strs (dict_get filter_dict ''field'' PNone) (all_fields C)"
    and "dict_get filter_dict ''operator'' PNone = PStr ''between''"
  shows "between_error X (dict_get filter_dict ''field'' PNone) \<in> set (validate_filter X filter_dict C)
           \<longleftrightarrow> not_pair (dict_get filter_dict ''value'' PNone)"
proof -
  from assms(1) obtain f where f: "dict_get filter_dict ''field'' PNone = PStr f"
    by (auto simp add: in_strs_def split: pyval.splits)
  show ?thesis
    using assms f
    by (simp add: validate_filter_def between_error_def py_str_def quoted_def in_strs_def Let_def
          split: option.splits)
qed

theorem between_structural_error_witness:
  "in_strs (dict_get [(''field'', PStr ''store_rating''), (''operator'', PStr ''between''),
                      (''value'', PInt 5)] ''field'' PNone) (all_fields example_config)
   \<and> dict_get [(''field'', PStr ''store_rating''), (''operator'', PStr ''between''),
                (''value'', PInt 5)] ''operator'' PNone = PStr ''between''
   \<and> between_error example_externals (PStr ''store_rating'')
       \<in> set (validate_filter example_externals
                 [(''field'', PStr ''store_rating''), (''operator'', PStr ''between''),
                  (''value'', PInt 5)] example_config)
   \<and> between_error example_externals (PStr ''store_rating'')
       \<notin> set (validate_filter example_externals
                 [(''field'', PStr ''store_rating''), (''operator'', PStr ''between''),
                  (''value'', PList [PInt 3, PInt 5])] example_config)"
  using between_structural_error
          [of "[(''field'', PStr ''store_rating''), (''operator'', PStr ''between''),
                (''value'', PInt 5)]" example_config example_externals]
        between_structural_error
          [of "[(''field'', PStr ''store_rating''), (''operator'', PStr ''between''),
                (''value'', PList [PInt 3, PInt 5])]" example_config example_externals]
  by (simp add: ex_ev dict_get_def in_strs_def all_fields_def not_pair_def)

text \<open>
  The claim as stated fails: with the field \<open>bogus\<close>, the operator \<open>between\<close> and the
  scalar value \<open>5\<close> the only message is the one for the field.
\<close>

theorem between_unsupported_field_counterexample:
  "validate_filter example_externals
     [(''field'', PStr ''bogus''), (''operator'', PStr ''between''), (''value'', PInt 5)]
     example_config = [''Unsupported field: bogus'']
   \<and> between_error example_externals (PStr ''bogus'')
       \<notin> set (validate_filter example_externals
                 [(''field'', PStr ''bogus''), (''operator'', PStr ''between''), (''value'', PInt 5)]
                 example_config)"
  by (simp add: ex_ev vf_ev)

subsection \<open>Canonicalizer\<close>




subsection \<open>Value normalizer: numeric coercion\<close>





subsection \<open>Value normalizer: the country and city tables\<close>

text \<open>
  Claim C3. The claim asks that a country is replaced when a key of \<open>country_mappings\<close>
  occurs in the value or the value occurs in a key. The scan for \<open>country\<close> tests the
  first direction only, while the scan for \<open>city\<close> tests both: the value \<open>saudi\<close>,
  which occurs in the key \<open>saudi arabia\<close>, is left as it is for the field \<open>country\<close>
  and is replaced when the same table is the one of the field \<open>city\<close>.
\<close>

theorem country_scan_misses_value_in_key:
  "normalize_value example_externals example_mappings ''country'' (PStr ''saudi'') ''string''
     = Inr (PStr ''saudi'')
   \<and> normalize_value example_externals
         (example_mappings\<lparr>city_mappings := country_mappings example_mappings\<rparr>)
         ''city'' (PStr ''saudi'') ''string''
       = Inr (PStr ''Saudi Arabia'')
   \<and> normalize_value example_externals example_mappings ''country'' (PStr ''in Saudi Arabia'')
         ''string''
       = Inr (PStr ''Saudi Arabia'')"
  by code_simp

subsection \<open>Value normalizer: date resolution\<close>




subsection \<open>Pipeline orchestrator\<close>

lemma validation_loop_append:
  "validation_loop X M C i (xs @ ys) acc
     = validation_loop X M C (i + length xs) ys (validation_loop X M C i xs acc)"
proof (induction xs arbitrary: i acc)
  case Nil
  show ?case by simp
next
  case (Cons x xs)
  obtain vf ve where acc: "acc = (vf, ve)"
    by (cases acc)
  show ?case
    using Cons.IH [of "i + 1"] by (simp add: acc)
qed

lemma validation_loop_raise:
  assumes "process_candidate X M C c = Inl e"
  shows "validation_loop X M C i (c # post) (vf, ve)
           = validation_loop X M C (i + 1) post
               (vf, ve @ [''Filter '' @ str_nat (i + 1) @ '': Validation exception - '' @ exc_str e])"
  using assms by simp

lemma validation_loop_lists:
  "validation_loop X M C i cs (vf, ve)
     = (vf @ map PDict
              (List.map_filter
                 (\<lambda>c. case process_candidate X M C c of
                        Inr (nf, []) \<Rightarrow> Some nf
                      | _ \<Rightarrow> None) cs),
        ve @ concat
               (map (\<lambda>(j, c).
                       case process_candidate X M C c of
                         Inl e \<Rightarrow>
                           [''Filter '' @ str_nat (j + 1) @ '': Validation exception - '' @ exc_str e]
                       | Inr (nf, errs) \<Rightarrow>
                           map (\<lambda>error. ''Filter '' @ str_nat (j + 1) @ '': '' @ error) errs)
                  (enumerate i cs)))"
proof (induction cs arbitrary: i vf ve)
  case Nil
  show ?case by (simp add: List.map_filter_simps)
next
  case (Cons c cs)
  show ?case
  proof (cases "process_candidate X M C c")
    case (Inl e)
    then show ?thesis
      using Cons.IH [of "i + 1"] by (simp add: List.map_filter_simps)
  next
    case (Inr r)
    obtain nf errs where r: "r = (nf, errs)"
      by (cases r)
    show ?thesis
      using Cons.IH [of "i + 1"] Inr r
      by (cases errs) (simp_all add: List.map_filter_simps)
  qed
qed

lemma validation_node_lists:
  assumes "case state ''raw_filters'' of None \<Rightarrow> cs = [] | Some v \<Rightarrow> v = PList cs"
    and "case state ''errors'' of None \<Rightarrow> es = [] | Some v \<Rightarrow> v = PList es"
  shows "validation_node X M C state
           = Inr (state(''validated_filters'' \<mapsto> PList (fst (validation_loop X M C 0 cs ([], []))),
                        ''errors'' \<mapsto>
                          PList (es @ map PStr (snd (validation_loop X M C 0 cs ([], []))))))"
  using assms
  by (auto simp add: validation_node_def candidates_of_def add_errors_def split_beta Let_def
        split: option.splits)

lemma example_loop:
  "validation_loop example_externals example_mappings example_config 0 example_candidates ([], [])
     = ([PDict [(''field'', PStr ''store_rating''), (''operator'', PStr ''between''),
                (''value'', PList [PFloat (Fin 3), PFloat (Fin 5)])]],
        [''Filter 2: Validation exception - '' @ quoted ''int'' @ '' object has no attribute ''
           @ quoted ''get'',
         ''Filter 3: Unsupported field: email_open_rate''])"
  by code_simp

lemma example_state_entries:
  "example_state ''raw_filters'' = Some (PList example_candidates)"
  "example_state ''errors'' = Some (PList [PStr ''Parsing error: timeout''])"
  "example_state ''prompt'' = Some (PStr ''customers rated 3 to 5'')"
  by (simp_all add: example_state_def)

text \<open>
  Claim C1. The loop handles each candidate on its own. When the body of the \<open>try\<close>
  raises for a candidate, the candidates before it have been handled as they would be
  alone, the candidate adds the one message \<open>Filter <i>: Validation exception -
  <message>\<close> (counting from 1) and no filter, and the loop goes on with the candidates
  after it. For a state whose \<open>raw_filters\<close> is a list (or absent) and whose \<open>errors\<close>
  is a list (or absent) the node returns a state: no exception of a candidate leaves it.
\<close>

theorem candidate_exception_recovered:
  "(process_candidate X M C c = Inl e \<longrightarrow>
      validation_loop X M C 0 (pre @ c # post) ([], [])
        = validation_loop X M C (length pre + 1) post
            (fst (validation_loop X M C 0 pre ([], [])),
             snd (validation_loop X M C 0 pre ([], []))
               @ [''Filter '' @ str_nat (length pre + 1) @ '': Validation exception - ''
                    @ exc_str e]))
   \<and> ((case state ''raw_filters'' of None \<Rightarrow> cs = [] | Some v \<Rightarrow> v = PList cs)
        \<and> (case state ''errors'' of None \<Rightarrow> es = [] | Some v \<Rightarrow> v = PList es) \<longrightarrow>
        validation_node X M C state
          = Inr (state(''validated_filters'' \<mapsto> PList (fst (validation_loop X M C 0 cs ([], []))),
                       ''errors'' \<mapsto>
                         PList (es @ map PStr (snd (validation_loop X M C 0 cs ([], [])))))))"
proof -
  have "validation_loop X M C 0 (pre @ c # post) ([], [])
          = validation_loop X M C (length pre + 1) post
              (fst (validation_loop X M C 0 pre ([], [])),
               snd (validation_loop X M C 0 pre ([], []))
                 @ [''Filter '' @ str_nat (length pre + 1) @ '': Validation exception - ''
                      @ exc_str e])"
    if "process_candidate X M C c = Inl e"
  proof -
    obtain vf ve where p: "validation_loop X M C 0 pre ([], []) = (vf, ve)"
      by (cases "validation_loop X M C 0 pre ([], [])")
    show ?thesis
      using validation_loop_raise [OF that, of "length pre" post vf ve]
      by (simp add: validation_loop_append p)
  qed
  then show ?thesis
    using validation_node_lists [where state = state and cs = cs and es = es] by blast
qed

theorem candidate_exception_recovered_witness:
  "process_candidate example_externals example_mappings example_config (PInt 3)
     = Inl (no_attribute (PInt 3) ''get'')
   \<and> validation_loop example_externals example_mappings example_config 0
         ([hd example_candidates] @ PInt 3 # [last example_candidates]) ([], [])
       = validation_loop example_externals example_mappings example_config
           (length [hd example_candidates] + 1) [last example_candidates]
           (fst (validation_loop example_externals example_mappings example_config 0
                   [hd example_candidates] ([], [])),
            snd (validation_loop example_externals example_mappings example_config 0
                   [hd example_candidates] ([], []))
              @ [''Filter '' @ str_nat (length [hd example_candidates] + 1)
                   @ '': Validation exception - '' @ exc_str (no_attribute (PInt 3) ''get'')])
   \<and> validation_node example_externals example_mappings example_config example_state
       = Inr (example_state
                (''validated_filters'' \<mapsto>
                   PList [PDict [(''field'', PStr ''store_rating''), (''operator'', PStr ''between''),
                                 (''value'', PList [PFloat (Fin 3), PFloat (Fin 5)])]],
                 ''errors'' \<mapsto>
                   PList [PStr ''Parsing error: timeout'',
                          PStr (''Filter 2: Validation exception - '' @ quoted ''int''
                                  @ '' object has no attribute '' @ quoted ''get''),
                          PStr ''Filter 3: Unsupported field: email_open_rate'']))"
proof -
  note t = candidate_exception_recovered
             [where X = example_externals and M = example_mappings and C = example_config
                and c = "PInt 3" and e = "no_attribute (PInt 3) ''get''"
                and pre = "[hd example_candidates]" and post = "[last example_candidates]"
                and state = example_state and cs = example_candidates
                and es = "[PStr ''Parsing error: timeout'']"]
  have a: "process_candidate example_externals example_mappings example_config (PInt 3)
             = Inl (no_attribute (PInt 3) ''get'')"
    by (simp add: process_candidate_def)
  have h: "(case example_state ''raw_filters'' of None \<Rightarrow> example_candidates = []
            | Some v \<Rightarrow> v = PList example_candidates)
           \<and> (case example_state ''errors'' of None \<Rightarrow> [PStr ''Parsing error: timeout''] = []
              | Some v \<Rightarrow> v = PList [PStr ''Parsing error: timeout''])"
    by (simp add: example_state_entries)
  from t a have 1: "validation_loop example_externals example_mappings example_config 0
         ([hd example_candidates] @ PInt 3 # [last example_candidates]) ([], [])
       = validation_loop example_externals example_mappings example_config
           (length [hd example_candidates] + 1) [last example_candidates]
           (fst (validation_loop example_externals example_mappings example_config 0
                   [hd example_candidates] ([], [])),
            snd (validation_loop example_externals example_mappings example_config 0
                   [hd example_candidates] ([], []))
              @ [''Filter '' @ str_nat (length [hd example_candidates] + 1)
                   @ '': Validation exception - '' @ exc_str (no_attribute (PInt 3) ''get'')])"
    by (rule conjunct1 [THEN mp])
  from t h have 2: "validation_node example_externals example_mappings example_config example_state
       = Inr (example_state
                (''validated_filters'' \<mapsto>
                   PList (fst (validation_loop example_externals example_mappings example_config 0
                                 example_candidates ([], []))),
                 ''errors'' \<mapsto>
                   PList ([PStr ''Parsing error: timeout'']
                          @ map PStr (snd (validation_loop example_externals example_mappings
                                             example_config 0 example_candidates ([], []))))))"
    by (rule conjunct2 [THEN mp])
  have 3: "validation_node example_externals example_mappings example_config example_state
       = Inr (example_state
                (''validated_filters'' \<mapsto>
                   PList [PDict [(''field'', PStr ''store_rating''), (''operator'', PStr ''between''),
                                 (''value'', PList [PFloat (Fin 3), PFloat (Fin 5)])]],
                 ''errors'' \<mapsto>
                   PList [PStr ''Parsing error: timeout'',
                          PStr (''Filter 2: Validation exception - '' @ quoted ''int''
                                  @ '' object has no attribute '' @ quoted ''get''),
                          PStr ''Filter 3: Unsupported field: email_open_rate'']))"
    unfolding 2 example_loop by simp
  from a 1 3 show ?thesis
    by (intro conjI)
qed

text \<open>
  Claim C2. The validated filters are the normalized forms of the candidates whose
  processing raised nothing and gave no validation error, in the order of the input; the
  errors are the messages of the candidates in the order of the input, those of one
  candidate in the order in which the validator found them. The node stores the first
  list under \<open>validated_filters\<close> and appends the second to the errors of the state.
\<close>

theorem validated_and_errors_in_order:
  "validation_loop X M C 0 cs ([], [])
     = (map PDict
          (List.map_filter
             (\<lambda>c. case process_candidate X M C c of
                    Inr (nf, []) \<Rightarrow> Some nf
                  | _ \<Rightarrow> None) cs),
        concat
          (map (\<lambda>(j, c).
                  case process_candidate X M C c of
                    Inl e \<Rightarrow>
                      [''Filter '' @ str_nat (j + 1) @ '': Validation exception - '' @ exc_str e]
                  | Inr (nf, errs) \<Rightarrow>
                      map (\<lambda>error. ''Filter '' @ str_nat (j + 1) @ '': '' @ error) errs)
             (enumerate 0 cs)))
   \<and> ((case state ''raw_filters'' of None \<Rightarrow> cs = [] | Some v \<Rightarrow> v = PList cs)
        \<and> (case state ''errors'' of None \<Rightarrow> es = [] | Some v \<Rightarrow> v = PList es) \<longrightarrow>
        (\<exists>out. validation_node X M C state = Inr out
           \<and> out ''validated_filters'' = Some (PList (fst (validation_loop X M C 0 cs ([], []))))
           \<and> out ''errors''
               = Some (PList (es @ map PStr (snd (validation_loop X M C 0 cs ([], [])))))))"
  using validation_loop_lists [of X M C 0 cs "[]" "[]"]
    validation_node_lists [where state = state and cs = cs and es = es]
  by auto

theorem validated_and_errors_in_order_witness:
  "(case example_state ''raw_filters'' of None \<Rightarrow> example_candidates = []
    | Some v \<Rightarrow> v = PList example_candidates)
   \<and> (case example_state ''errors'' of None \<Rightarrow> [PStr ''Parsing error: timeout''] = []
      | Some v \<Rightarrow> v = PList [PStr ''Parsing error: timeout''])
   \<and> (\<exists>out. validation_node example_externals example_mappings example_config example_state
                = Inr out
          \<and> out ''validated_filters''
              = Some (PList [PDict [(''field'', PStr ''store_rating''),
                                     (''operator'', PStr ''between''),
                                     (''value'', PList [PFloat (Fin 3), PFloat (Fin 5)])]])
          \<and> out ''errors''
              = Some (PList [PStr ''Parsing error: timeout'',
                             PStr (''Filter 2: Validation exception - '' @ quoted ''int''
                                     @ '' object has no attribute '' @ quoted ''get''),
                             PStr ''Filter 3: Unsupported field: email_open_rate'']))
   \<and> map PDict
         (List.map_filter
            (\<lambda>c. case process_candidate example_externals example_mappings example_config c of
                   Inr (nf, []) \<Rightarrow> Some nf
                 | _ \<Rightarrow> None) example_candidates)
       = [PDict [(''field'', PStr ''store_rating''), (''operator'', PStr ''between''),
                 (''value'', PList [PFloat (Fin 3), PFloat (Fin 5)])]]"
proof -
  note t = validated_and_errors_in_order
             [where X = example_externals and M = example_mappings and C = example_config
                and cs = example_candidates and state = example_state
                and es = "[PStr ''Parsing error: timeout'']"]
  have h: "(case example_state ''raw_filters'' of None \<Rightarrow> example_candidates = []
            | Some v \<Rightarrow> v = PList example_candidates)
           \<and> (case example_state ''errors'' of None \<Rightarrow> [PStr ''Parsing error: timeout''] = []
              | Some v \<Rightarrow> v = PList [PStr ''Parsing error: timeout''])"
    by (simp add: example_state_entries)
  from t h obtain out
    where o: "validation_node example_externals example_mappings example_config example_state
                = Inr out"
      "out ''validated_filters''
         = Some (PList (fst (validation_loop example_externals example_mappings example_config 0
                               example_candidates ([], []))))"
      "out ''errors''
         = Some (PList ([PStr ''Parsing error: timeout'']
                        @ map PStr (snd (validation_loop example_externals example_mappings
                                           example_config 0 example_candidates ([], [])))))"
    by blast
  from o(2) have o2: "out ''validated_filters''
              = Some (PList [PDict [(''field'', PStr ''store_rating''),
                                     (''operator'', PStr ''between''),
                                     (''value'', PList [PFloat (Fin 3), PFloat (Fin 5)])]])"
    unfolding example_loop by simp
  from o(3) have o3: "out ''errors''
              = Some (PList [PStr ''Parsing error: timeout'',
                             PStr (''Filter 2: Validation exception - '' @ quoted ''int''
                                     @ '' object has no attribute '' @ quoted ''get''),
                             PStr ''Filter 3: Unsupported field: email_open_rate''])"
    unfolding example_loop by simp
  from t have "fst (validation_loop example_externals example_mappings example_config 0
                      example_candidates ([], []))
       = map PDict
         (List.map_filter
            (\<lambda>c. case process_candidate example_externals example_mappings example_config c of
                   Inr (nf, []) \<Rightarrow> Some nf
                 | _ \<Rightarrow> None) example_candidates)"
    by (simp only: conjunct1 [OF t] fst_conv)
  then have m: "map PDict
         (List.map_filter
            (\<lambda>c. case process_candidate example_externals example_mappings example_config c of
                   Inr (nf, []) \<Rightarrow> Some nf
                 | _ \<Rightarrow> None) example_candidates)
       = [PDict [(''field'', PStr ''store_rating''), (''operator'', PStr ''between''),
                 (''value'', PList [PFloat (Fin 3), PFloat (Fin 5)])]]"
    unfolding example_loop by simp
  from h o(1) o2 o3 m show ?thesis
    by blast
qed

text \<open>
  Claim C10. Whenever the node returns a state, every key other than
  \<open>validated_filters\<close> and \<open>errors\<close> has the value it had in the input state, and the
  errors of the output are the errors of the input (none when the key is absent)
  followed by the new ones. The node returns a state whenever \<open>raw_filters\<close> and
  \<open>errors\<close> are lists or absent.
\<close>

theorem validation_node_frame:
  "(validation_node X M C state = Inr out \<longrightarrow>
      (\<forall>k. k \<noteq> ''validated_filters'' \<and> k \<noteq> ''errors'' \<longrightarrow> out k = state k)
      \<and> (\<exists>es new. (case state ''errors'' of None \<Rightarrow> es = [] | Some v \<Rightarrow> v = PList es)
            \<and> out ''errors'' = Some (PList (es @ new))))
   \<and> ((case state ''raw_filters'' of None \<Rightarrow> True | Some v \<Rightarrow> \<exists>cs. v = PList cs)
        \<and> (case state ''errors'' of None \<Rightarrow> True | Some v \<Rightarrow> \<exists>es. v = PList es) \<longrightarrow>
        (\<exists>out. validation_node X M C state = Inr out))"
proof -
  have frame: "(\<forall>k. k \<noteq> ''validated_filters'' \<and> k \<noteq> ''errors'' \<longrightarrow> out k = state k)
      \<and> (\<exists>es new. (case state ''errors'' of None \<Rightarrow> es = [] | Some v \<Rightarrow> v = PList es)
            \<and> out ''errors'' = Some (PList (es @ new)))"
    if "validation_node X M C state = Inr out"
    using that
    by (auto simp add: validation_node_def add_errors_def split_beta Let_def
          split: option.splits sum.splits pyval.splits)
  have returns: "\<exists>out. validation_node X M C state = Inr out"
    if "case state ''raw_filters'' of None \<Rightarrow> True | Some v \<Rightarrow> \<exists>cs. v = PList cs"
      and "case state ''errors'' of None \<Rightarrow> True | Some v \<Rightarrow> \<exists>es. v = PList es"
  proof -
    from that(1) obtain cs
      where "case state ''raw_filters'' of None \<Rightarrow> cs = [] | Some v \<Rightarrow> v = PList cs"
      by (auto split: option.splits)
    moreover from that(2) obtain es
      where "case state ''errors'' of None \<Rightarrow> es = [] | Some v \<Rightarrow> v = PList es"
      by (auto split: option.splits)
    ultimately show ?thesis
      using validation_node_lists [where state = state and cs = cs and es = es] by blast
  qed
  from frame returns show ?thesis by blast
qed

theorem validation_node_frame_witness:
  "(\<exists>out. validation_node example_externals example_mappings example_config example_state
             = Inr out
        \<and> out ''prompt'' = Some (PStr ''customers rated 3 to 5'')
        \<and> out ''raw_filters'' = Some (PList example_candidates)
        \<and> out ''language'' = None
        \<and> (\<exists>new. out ''errors'' = Some (PList ([PStr ''Parsing error: timeout''] @ new))))"
proof -
  have h: "(case example_state ''raw_filters'' of None \<Rightarrow> True | Some v \<Rightarrow> \<exists>cs. v = PList cs)
           \<and> (case example_state ''errors'' of None \<Rightarrow> True | Some v \<Rightarrow> \<exists>es. v = PList es)"
    by (simp add: example_state_entries)
  have "\<exists>out. validation_node example_externals example_mappings example_config example_state
                = Inr out"
    using validation_node_frame
            [where X = example_externals and M = example_mappings and C = example_config
               and state = example_state, THEN conjunct2, THEN mp, OF h] .
  then obtain out
    where out: "validation_node example_externals example_mappings example_config example_state
                  = Inr out" ..
  note f = validation_node_frame
             [where X = example_externals and M = example_mappings and C = example_config
                and state = example_state and out = out, THEN conjunct1, THEN mp, OF out]
  from f have keys: "\<forall>k. k \<noteq> ''validated_filters'' \<and> k \<noteq> ''errors'' \<longrightarrow> out k = example_state k"
    by (rule conjunct1)
  from f obtain es new
    where e: "case example_state ''errors'' of None \<Rightarrow> es = [] | Some v \<Rightarrow> v = PList es"
      and n: "out ''errors'' = Some (PList (es @ new))"
    by (elim conjE exE)
  from e have es: "es = [PStr ''Parsing error: timeout'']"
    by (simp add: example_state_entries)
  have 1: "out ''prompt'' = Some (PStr ''customers rated 3 to 5'')"
    using keys [rule_format, of "''prompt''"] by (simp add: example_state_entries)
  have 2: "out ''raw_filters'' = Some (PList example_candidates)"
    using keys [rule_format, of "''raw_filters''"] by (simp add: example_state_entries)
  have 3: "out ''language'' = None"
    using keys [rule_format, of "''language''"] by (simp add: example_state_def)
  from n es have 4: "\<exists>new. out ''errors'' = Some (PList ([PStr ''Parsing error: timeout''] @ new))"
    by blast
  from out 1 2 3 4 show ?thesis
    by blast
qed

subsection \<open>The conversion to binary64\<close>





















subsection \<open>Value normalizer: idempotence\<close>















end
